theory Spec2Isabelle
  imports Main "HOL-Library.Sublist"
begin

section \<open>Python values\<close>

text \<open>
  A Python \<^verbatim>\<open>str\<close> is a sequence of Unicode code points: \<^verbatim>\<open>len\<close> counts
  code points and a slice cuts between them. A string is therefore a list of code points
  (natural numbers); \<open>str\<close> reads an ASCII literal.
\<close>

type_synonym pystr = "nat list"

definition str :: "string \<Rightarrow> pystr" where
  "str s = map of_char s"

text \<open>
  The values that the dictionaries of the backend hold for the keys the code reads:
  a string, or \<^verbatim>\<open>None\<close> (a JSON null, an SQL NULL).
\<close>

datatype pyval = VNone | VStr pystr

datatype py_exception =
    KeyError pystr
  | TypeError
  | HTTPException nat pystr
  | StorageError pystr

type_synonym pydict = "pystr \<rightharpoonup> pyval"

text \<open>\<^verbatim>\<open>d[k]\<close> raises KeyError on a missing key.\<close>

definition dict_index :: "pydict \<Rightarrow> pystr \<Rightarrow> py_exception + pyval" where
  "dict_index d k = (case d k of None \<Rightarrow> Inl (KeyError k) | Some v \<Rightarrow> Inr v)"

text \<open>\<^verbatim>\<open>d.get(k, default)\<close>; \<^verbatim>\<open>d.get(k)\<close> is \<open>dict_get d k VNone\<close>.\<close>

definition dict_get :: "pydict \<Rightarrow> pystr \<Rightarrow> pyval \<Rightarrow> pyval" where
  "dict_get d k dflt = (case d k of None \<Rightarrow> dflt | Some v \<Rightarrow> v)"

text \<open>Truth value of an object: \<^verbatim>\<open>None\<close> and the empty string are false.\<close>

fun truthy :: "pyval \<Rightarrow> bool" where
  "truthy VNone = False"
| "truthy (VStr s) = (s \<noteq> [])"

text \<open>\<^verbatim>\<open>a or b\<close> is \<^verbatim>\<open>a\<close> when \<^verbatim>\<open>a\<close> is true, else \<^verbatim>\<open>b\<close>.\<close>

definition py_or :: "pyval \<Rightarrow> pyval \<Rightarrow> pyval" where
  "py_or a b = (if truthy a then a else b)"

text \<open>The text an f-string puts for \<^verbatim>\<open>{x}\<close>.\<close>

fun format_value :: "pyval \<Rightarrow> pystr" where
  "format_value VNone = str ''None''"
| "format_value (VStr s) = s"

text \<open>
  \<^verbatim>\<open>s[:n]\<close>: the first \<open>n\<close> code points; a negative \<open>n\<close> counts from the
  end, and the bound is clipped to the string.
\<close>

definition slice_to :: "pystr \<Rightarrow> int \<Rightarrow> pystr" where
  "slice_to s n = (if 0 \<le> n then take (nat n) s else take (length s - nat (- n)) s)"

section \<open>CrawlerService\<close>

text \<open>
  \<^verbatim>\<open>
  async def generate_summary(self, content: str, max_length: int = 200) -> str:
      return content[:max_length] + "..." if len(content) > max_length else content
  \<close>
\<close>

definition generate_summary :: "pystr \<Rightarrow> int \<Rightarrow> pystr" where
  "generate_summary content max_length =
     (if int (length content) > max_length
      then slice_to content max_length @ str ''...''
      else content)"

text \<open>
  What \<^verbatim>\<open>extract_page_data\<close> returns. It catches every exception of the crawl, so
  it returns one of two dictionaries: success with the extracted \<^verbatim>\<open>data\<close>, or
  failure with an error message. The crawl itself is outside the program.
\<close>

datatype crawl_result =
    CrawlSuccess (data: pydict)
  | CrawlFailure (error_message: pystr)

section \<open>LineService\<close>

text \<open>
  \<^verbatim>\<open>\s\<close> in a \<^verbatim>\<open>str\<close> pattern: the code points for which
  \<^verbatim>\<open>str.isspace\<close> holds.
\<close>

definition py_isspace :: "nat \<Rightarrow> bool" where
  "py_isspace c =
     (c \<in> set [9, 10, 11, 12, 13, 28, 29, 30, 31, 32, 133, 160, 5760,
                8232, 8233, 8239, 8287, 12288]
      \<or> (8192 \<le> c \<and> c \<le> 8202))"

text \<open>The tail \<^verbatim>\<open>[^\s]+\<close> of the pattern needs one character that is not whitespace.\<close>

fun nonspace_head :: "pystr \<Rightarrow> bool" where
  "nonspace_head [] = False"
| "nonspace_head (c # cs) = (\<not> py_isspace c)"

text \<open>The pattern \<^verbatim>\<open>https?://[^\s]+\<close> matches at the start of \<open>s\<close>.\<close>

definition match_url_at :: "pystr \<Rightarrow> bool" where
  "match_url_at s =
     (prefix (str ''http://'') s \<and> nonspace_head (drop 7 s)
      \<or> prefix (str ''https://'') s \<and> nonspace_head (drop 8 s))"

text \<open>
  \<^verbatim>\<open>
  def is_url(self, text: str) -> bool:
      url_pattern = r'https?://[^\s]+'
      return bool(re.search(url_pattern, text))
  \<close>
  \<^verbatim>\<open>re.search\<close> tries the pattern at every position, left to right.
\<close>

fun is_url :: "pystr \<Rightarrow> bool" where
  "is_url [] = False"
| "is_url (c # cs) = (match_url_at (c # cs) \<or> is_url cs)"

text \<open>
  The Flex Message that \<^verbatim>\<open>create_bookmark_card\<close> returns is a nested dictionary
  literal; it is kept as such.
\<close>

datatype json =
    JNone
  | JBool bool
  | JStr pystr
  | JArr "json list"
  | JObj "(string \<times> json) list"

fun of_pyval :: "pyval \<Rightarrow> json" where
  "of_pyval VNone = JNone"
| "of_pyval (VStr s) = JStr s"

text \<open>
  \<^verbatim>\<open>
  main_content = bookmark_data.get('content_markdown', bookmark_data.get('description', ''))
  \<close>
\<close>

definition main_content :: "pydict \<Rightarrow> pyval" where
  "main_content bookmark_data =
     dict_get bookmark_data (str ''content_markdown'')
       (dict_get bookmark_data (str ''description'') (VStr []))"

text \<open>
  \<^verbatim>\<open>
  content_preview = main_content[:100] + "..." if len(main_content) > 100 else main_content
  \<close>
  The condition is evaluated first, and \<^verbatim>\<open>len(None)\<close> raises TypeError.
\<close>

definition truncate_preview :: "pystr \<Rightarrow> pystr" where
  "truncate_preview s = (if length s > 100 then take 100 s @ str ''...'' else s)"

fun content_preview :: "pyval \<Rightarrow> py_exception + pystr" where
  "content_preview VNone = Inl TypeError"
| "content_preview (VStr s) = Inr (truncate_preview s)"

text \<open>
  \<^verbatim>\<open>
  image_url = (bookmark_data.get('image_url') or
              bookmark_data.get('preview_image') or
              'https://your-domain.com/icon.png')
  \<close>
\<close>

definition default_icon :: pystr where
  "default_icon = str ''https://your-domain.com/icon.png''"

definition image_url :: "pydict \<Rightarrow> pyval" where
  "image_url bookmark_data =
     py_or (dict_get bookmark_data (str ''image_url'') VNone)
       (py_or (dict_get bookmark_data (str ''preview_image'') VNone)
          (VStr default_icon))"

text \<open>The labels of the card, as code points (a clipboard, a pencil, a book, a disk).\<close>

definition alt_prefix :: pystr where
  "alt_prefix = [128203, 32]"

definition edit_label :: pystr where
  "edit_label = [9999, 65039, 32, 32232, 36655, 21345, 29255]"

definition read_label :: pystr where
  "read_label = [128214, 32, 38321, 35712, 21407, 25991]"

definition save_label :: pystr where
  "save_label = [128190, 32, 20445, 23384, 26360, 31844]"

text \<open>The dictionary literal of the card, over the five values it reads.\<close>

definition flex_message :: "pyval \<Rightarrow> pyval \<Rightarrow> pystr \<Rightarrow> pyval \<Rightarrow> pyval \<Rightarrow> json" where
  "flex_message hero_url title preview ident url =
     JObj [
       (''type'', JStr (str ''flex'')),
       (''altText'', JStr (alt_prefix @ format_value title)),
       (''contents'', JObj [
          (''type'', JStr (str ''bubble'')),
          (''hero'', JObj [
             (''type'', JStr (str ''image'')),
             (''url'', of_pyval hero_url),
             (''size'', JStr (str ''full'')),
             (''aspectRatio'', JStr (str ''16:9'')),
             (''aspectMode'', JStr (str ''cover''))]),
          (''body'', JObj [
             (''type'', JStr (str ''box'')),
             (''layout'', JStr (str ''vertical'')),
             (''contents'', JArr [
                JObj [
                  (''type'', JStr (str ''text'')),
                  (''text'', of_pyval title),
                  (''weight'', JStr (str ''bold'')),
                  (''size'', JStr (str ''lg'')),
                  (''wrap'', JBool True)],
                JObj [
                  (''type'', JStr (str ''text'')),
                  (''text'', JStr preview),
                  (''size'', JStr (str ''sm'')),
                  (''color'', JStr (str ''#666666'')),
                  (''wrap'', JBool True),
                  (''margin'', JStr (str ''md''))],
                JObj [
                  (''type'', JStr (str ''button'')),
                  (''style'', JStr (str ''primary'')),
                  (''action'', JObj [
                     (''type'', JStr (str ''uri'')),
                     (''uri'', JStr (str ''https://your-liff-app.com/edit/'' @ format_value ident)),
                     (''label'', JStr edit_label)]),
                  (''margin'', JStr (str ''md''))]])]),
          (''footer'', JObj [
             (''type'', JStr (str ''box'')),
             (''layout'', JStr (str ''horizontal'')),
             (''spacing'', JStr (str ''sm'')),
             (''contents'', JArr [
                JObj [
                  (''type'', JStr (str ''button'')),
                  (''style'', JStr (str ''secondary'')),
                  (''action'', JObj [
                     (''type'', JStr (str ''uri'')),
                     (''uri'', of_pyval url),
                     (''label'', JStr read_label)])],
                JObj [
                  (''type'', JStr (str ''button'')),
                  (''style'', JStr (str ''secondary'')),
                  (''action'', JObj [
                     (''type'', JStr (str ''postback'')),
                     (''data'', JStr (str ''save|'' @ format_value ident)),
                     (''label'', JStr save_label)])]])])])]"

text \<open>
  \<^verbatim>\<open>def create_bookmark_card(self, bookmark_data: dict) -> dict\<close>.
  The preview is computed first; then the literal reads \<^verbatim>\<open>bookmark_data['title']\<close>,
  \<^verbatim>\<open>bookmark_data['id']\<close> and \<^verbatim>\<open>bookmark_data['url']\<close> in this order, each
  raising KeyError when the key is missing.
\<close>

definition create_bookmark_card :: "pydict \<Rightarrow> py_exception + json" where
  "create_bookmark_card bookmark_data =
     (case content_preview (main_content bookmark_data) of
        Inl e \<Rightarrow> Inl e
      | Inr preview \<Rightarrow>
     (case dict_index bookmark_data (str ''title'') of
        Inl e \<Rightarrow> Inl e
      | Inr title \<Rightarrow>
     (case dict_index bookmark_data (str ''id'') of
        Inl e \<Rightarrow> Inl e
      | Inr ident \<Rightarrow>
     (case dict_index bookmark_data (str ''url'') of
        Inl e \<Rightarrow> Inl e
      | Inr url \<Rightarrow>
          Inr (flex_message (image_url bookmark_data) title preview ident url)))))"

subsection \<open>Reading a card\<close>

fun obj_get :: "json \<Rightarrow> string \<Rightarrow> json option" where
  "obj_get (JObj kvs) k = map_of kvs k"
| "obj_get _ k = None"

fun path_get :: "json \<Rightarrow> string list \<Rightarrow> json option" where
  "path_get j [] = Some j"
| "path_get j (k # ks) = (case obj_get j k of None \<Rightarrow> None | Some j' \<Rightarrow> path_get j' ks)"

fun arr_items :: "json option \<Rightarrow> json list" where
  "arr_items (Some (JArr xs)) = xs"
| "arr_items _ = []"

definition has_type :: "string \<Rightarrow> json \<Rightarrow> bool" where
  "has_type ty j = (obj_get j ''type'' = Some (JStr (str ty)))"

text \<open>The image of the card: \<^verbatim>\<open>card["contents"]["hero"]["url"]\<close>.\<close>

definition card_image :: "json \<Rightarrow> json option" where
  "card_image msg = path_get msg [''contents'', ''hero'', ''url'']"

definition body_contents :: "json \<Rightarrow> json list" where
  "body_contents msg = arr_items (path_get msg [''contents'', ''body'', ''contents''])"

definition footer_contents :: "json \<Rightarrow> json list" where
  "footer_contents msg = arr_items (path_get msg [''contents'', ''footer'', ''contents''])"

text \<open>The text components of the body, in order: the title, then the preview.\<close>

definition card_texts :: "json \<Rightarrow> json option list" where
  "card_texts msg = map (\<lambda>j. obj_get j ''text'') (filter (has_type ''text'') (body_contents msg))"

definition card_title :: "json \<Rightarrow> json option" where
  "card_title msg = (case card_texts msg of t # _ \<Rightarrow> t | _ \<Rightarrow> None)"

definition card_preview :: "json \<Rightarrow> json option" where
  "card_preview msg = (case card_texts msg of _ # p # _ \<Rightarrow> p | _ \<Rightarrow> None)"

text \<open>Every button of the card, body first, then footer.\<close>

definition card_buttons :: "json \<Rightarrow> json list" where
  "card_buttons msg = filter (has_type ''button'') (body_contents msg @ footer_contents msg)"

definition button_style :: "json \<Rightarrow> json option" where
  "button_style b = obj_get b ''style''"

definition action_field :: "string \<Rightarrow> json \<Rightarrow> json option" where
  "action_field k b = (case obj_get b ''action'' of None \<Rightarrow> None | Some a \<Rightarrow> obj_get a k)"

definition buttons_of_style :: "string \<Rightarrow> json \<Rightarrow> json list" where
  "buttons_of_style st msg = filter (\<lambda>b. button_style b = Some (JStr (str st))) (card_buttons msg)"

section \<open>The bookmarks API\<close>

text \<open>
  A row of the table \<^verbatim>\<open>bookmarks\<close>, with the columns of its
  \<^verbatim>\<open>CREATE TABLE\<close>. The table declares one key, \<^verbatim>\<open>id UUID DEFAULT
  gen_random_uuid() PRIMARY KEY\<close>, the reference \<^verbatim>\<open>user_id UUID REFERENCES
  auth.users(id)\<close>, and no constraint over \<^verbatim>\<open>user_id\<close> and \<^verbatim>\<open>url\<close>
  together. A UUID in a column is kept in its output form: 32 lower-case hexadecimal
  digits in groups of 8, 4, 4, 4 and 12.
\<close>

record bookmarks_row =
  col_id :: pystr
  col_user_id :: pystr
  col_folder_id :: pyval
  col_url :: pystr
  col_title :: pyval
  col_description :: pyval
  col_image_url :: pyval
  col_content_markdown :: pyval
  col_summary :: pyval
  col_notes :: pyval
  col_tags :: "pystr list option"
  col_created_at :: nat
  col_updated_at :: nat

text \<open>
  What one request takes from outside the program: the crawler's answer for a URL, the
  text \<^verbatim>\<open>str(e)\<close> of an exception, the UUID and the time the database draws for
  the new row, the identities in \<^verbatim>\<open>auth.users\<close>, the value of
  \<^verbatim>\<open>auth.uid()\<close> in the session of the request, and a failure of the storage call
  that does not depend on the row (the connection), if there is one.

  \<^verbatim>\<open>auth.uid()\<close> is the user of the token of the session, and NULL without one. The
  client of \<^verbatim>\<open>main.py\<close> is built by \<^verbatim>\<open>create_client(SUPABASE_URL,
  SUPABASE_ANON_KEY)\<close> and never signs in, so for its requests \<open>auth_uid\<close> is
  \<open>None\<close>.
\<close>

record request_env =
  extract_page_data :: "pystr \<Rightarrow> crawl_result"
  exc_str :: "py_exception \<Rightarrow> pystr"
  gen_random_uuid :: pystr
  now :: nat
  auth_users :: "pystr list"
  auth_uid :: "pystr option"
  storage_fault :: "pystr option"

text \<open>
  The column \<^verbatim>\<open>user_id\<close> has type UUID and the request gives a text, which the
  database reads as a UUID: an optional opening brace, 16 bytes of two hexadecimal digits
  each, in either case, with an optional hyphen after every second byte but the last, the
  closing brace if there was an opening one, and nothing more.
\<close>

definition hex_digit :: "nat \<Rightarrow> nat option" where
  "hex_digit c =
     (if 48 \<le> c \<and> c \<le> 57 then Some (c - 48)
      else if 97 \<le> c \<and> c \<le> 102 then Some (c - 87)
      else if 65 \<le> c \<and> c \<le> 70 then Some (c - 55)
      else None)"

definition hex_char :: "nat \<Rightarrow> nat" where
  "hex_char d = (if d < 10 then 48 + d else 87 + d)"

text \<open>The bytes from the \<open>i\<close>-th on: their digits, and the text left after them.\<close>

function uuid_digits :: "nat \<Rightarrow> pystr \<Rightarrow> (nat list \<times> pystr) option" where
  "uuid_digits i src =
     (if 16 \<le> i then Some ([], src)
      else
        (case src of
           a # b # rest \<Rightarrow>
             (case (hex_digit a, hex_digit b) of
                (Some x, Some y) \<Rightarrow>
                  (case uuid_digits (i + 1)
                          (if take 1 rest = [45] \<and> i mod 2 = 1 \<and> i < 15
                           then drop 1 rest else rest) of
                     None \<Rightarrow> None
                   | Some (ds, r) \<Rightarrow> Some (x # y # ds, r))
              | _ \<Rightarrow> None)
         | _ \<Rightarrow> None))"
  by pat_completeness auto
termination
  by (relation "measure (\<lambda>(i, src). 16 - i)") auto

declare uuid_digits.simps [simp del]

text \<open>The output form of 32 digits.\<close>

definition uuid_out :: "nat list \<Rightarrow> pystr" where
  "uuid_out ds =
     (let h = map hex_char ds
      in take 8 h @ [45] @ take 4 (drop 8 h) @ [45] @ take 4 (drop 12 h) @ [45]
         @ take 4 (drop 16 h) @ [45] @ drop 20 h)"

definition uuid_in :: "pystr \<Rightarrow> pystr option" where
  "uuid_in s =
     (case s of
        [] \<Rightarrow> None
      | c # cs \<Rightarrow>
          if c = 123
          then (case uuid_digits 0 cs of
                  Some (ds, [z]) \<Rightarrow> if z = 125 then Some (uuid_out ds) else None
                | _ \<Rightarrow> None)
          else (case uuid_digits 0 s of
                  Some (ds, []) \<Rightarrow> Some (uuid_out ds)
                | _ \<Rightarrow> None))"

text \<open>The detail of the status 400 response, as code points.\<close>

definition cannot_process :: pystr where
  "cannot_process = [28961, 27861, 34389, 29702, 27492, 32178, 22336]"

text \<open>
  \<^verbatim>\<open>supabase.table("bookmarks").insert(bookmark_data).execute()\<close>. The database
  refuses the row when \<^verbatim>\<open>user_id\<close> is not the text of a UUID; when the policy
  \<^verbatim>\<open>"Users can insert own bookmarks" ... WITH CHECK (auth.uid() = user_id)\<close> does
  not hold (row level security is enabled on the table, and a NULL \<^verbatim>\<open>auth.uid()\<close>
  equals nothing); when the primary key finds the new identity in the table; and when
  \<^verbatim>\<open>user_id\<close> is not an identity of \<^verbatim>\<open>auth.users\<close>. Otherwise the columns
  that \<^verbatim>\<open>bookmark_data\<close> does not give take their defaults and the row is added.
  The result is \<^verbatim>\<open>result.data[0]\<close>, the row inserted, with the new table.
\<close>

definition insert_bookmark ::
  "request_env \<Rightarrow> pystr \<Rightarrow> pystr \<Rightarrow> pyval \<Rightarrow> pyval \<Rightarrow> pyval \<Rightarrow> pyval
     \<Rightarrow> bookmarks_row list \<Rightarrow> py_exception + bookmarks_row \<times> bookmarks_row list" where
  "insert_bookmark env user_id url title description content_markdown main_image table =
     (case storage_fault env of
        Some m \<Rightarrow> Inl (StorageError m)
      | None \<Rightarrow>
     (case uuid_in user_id of
        None \<Rightarrow> Inl (StorageError (str ''invalid input syntax for type uuid''))
      | Some owner \<Rightarrow>
          if auth_uid env \<noteq> Some owner
          then Inl (StorageError (str ''new row violates row-level security policy''))
          else if gen_random_uuid env \<in> set (map col_id table)
          then Inl (StorageError (str ''duplicate key value violates unique constraint''))
          else if owner \<notin> set (auth_users env)
          then Inl (StorageError (str ''violates foreign key constraint''))
          else
            let row = \<lparr>col_id = gen_random_uuid env, col_user_id = owner,
                        col_folder_id = VNone, col_url = url, col_title = title,
                        col_description = description, col_image_url = main_image,
                        col_content_markdown = content_markdown, col_summary = VNone,
                        col_notes = VNone, col_tags = None,
                        col_created_at = now env, col_updated_at = now env\<rparr>
            in Inr (row, table @ [row])))"

text \<open>
  The body of the \<^verbatim>\<open>try\<close> of \<^verbatim>\<open>create_bookmark\<close>:
  \<^verbatim>\<open>
  crawl_result = await crawler_service.extract_page_data(url)
  if not crawl_result["success"]:
      raise HTTPException(status_code=400, detail=...)
  page_data = crawl_result["data"]
  bookmark_data = {"user_id": user_id, "url": url, "title": page_data["title"],
      "description": page_data["description"],
      "content_markdown": page_data["content_markdown"],
      "image_url": page_data["main_image"]}
  result = supabase.table("bookmarks").insert(bookmark_data).execute()
  return {"success": True, "bookmark": result.data[0]}
  \<close>
\<close>

definition create_bookmark_try ::
  "request_env \<Rightarrow> pystr \<Rightarrow> pystr \<Rightarrow> bookmarks_row list
     \<Rightarrow> py_exception + bookmarks_row \<times> bookmarks_row list" where
  "create_bookmark_try env url user_id table =
     (case extract_page_data env url of
        CrawlFailure err \<Rightarrow> Inl (HTTPException 400 cannot_process)
      | CrawlSuccess page_data \<Rightarrow>
     (case dict_index page_data (str ''title'') of
        Inl e \<Rightarrow> Inl e
      | Inr title \<Rightarrow>
     (case dict_index page_data (str ''description'') of
        Inl e \<Rightarrow> Inl e
      | Inr description \<Rightarrow>
     (case dict_index page_data (str ''content_markdown'') of
        Inl e \<Rightarrow> Inl e
      | Inr content_markdown \<Rightarrow>
     (case dict_index page_data (str ''main_image'') of
        Inl e \<Rightarrow> Inl e
      | Inr main_image \<Rightarrow>
          insert_bookmark env user_id url title description content_markdown main_image
            table)))))"

text \<open>
  \<^verbatim>\<open>
  @app.post("/api/bookmarks")
  async def create_bookmark(url: str, user_id: str):
      try: ...
      except Exception as e:
          raise HTTPException(status_code=500, detail=str(e))
  \<close>
  Every exception of the body, the status 400 one too, leaves as a status 500 one. The
  result pairs the response (or the exception the caller gets) with the table after the
  request.
\<close>

definition create_bookmark ::
  "request_env \<Rightarrow> pystr \<Rightarrow> pystr \<Rightarrow> bookmarks_row list
     \<Rightarrow> (py_exception + bookmarks_row) \<times> bookmarks_row list" where
  "create_bookmark env url user_id table =
     (case create_bookmark_try env url user_id table of
        Inl e \<Rightarrow> (Inl (HTTPException 500 (exc_str env e)), table)
      | Inr (row, table') \<Rightarrow> (Inr row, table'))"

text \<open>The rows of one owner for one URL.\<close>

definition rows_of :: "pystr \<Rightarrow> pystr \<Rightarrow> bookmarks_row list \<Rightarrow> bookmarks_row list" where
  "rows_of user_id url table = filter (\<lambda>r. col_user_id r = user_id \<and> col_url r = url) table"

section \<open>The newsletter page\<close>

text \<open>
  A JavaScript string is a sequence of UTF-16 code units; \<open>str\<close> reads an ASCII
  literal here too.
\<close>

type_synonym jsstr = "nat list"

text \<open>
  \<^verbatim>\<open>appData.topics\<close> and \<^verbatim>\<open>appData.newsletterFrequencies\<close>, with the fields
  that the dashboard reads: the name, display name and colour of a topic, the value and
  label of a frequency.
\<close>

definition appData_topics :: "(jsstr \<times> jsstr \<times> jsstr) list" where
  "appData_topics =
     [(str ''AI'', [20154, 24037, 26234, 24935], str ''#4F46E5''),
      (str ''Blockchain'', [21312, 22602, 37832], str ''#059669''),
      (str ''ESG'', [27704, 32396, 30332, 23637], str ''#DC2626''),
      (str ''Technology'', [31185, 25216, 36264, 21218], str ''#7C2D12'')]"

definition appData_newsletterFrequencies :: "(jsstr \<times> jsstr) list" where
  "appData_newsletterFrequencies =
     [(str ''daily'', [27599, 26085]),
      (str ''weekly'', [27599, 36913]),
      (str ''monthly'', [27599, 26376])]"

text \<open>The object that \<^verbatim>\<open>handleSubscription\<close> stores in \<^verbatim>\<open>currentUser\<close>.\<close>

record user =
  email :: jsstr
  frequency :: "jsstr option"
  topics :: "jsstr list"
  subscriptionDate :: jsstr
  status :: jsstr

text \<open>
  What the form gives: \<^verbatim>\<open>formData.get\<close> is \<^verbatim>\<open>null\<close> for a field that is not
  there, \<^verbatim>\<open>formData.getAll\<close> is the list of the boxes checked.
\<close>

record form_data =
  form_email :: "jsstr option"
  form_frequency :: "jsstr option"
  form_topics :: "jsstr list"

text \<open>The JSON body of the POST to the webhook.\<close>

record webhook_body =
  body_email :: jsstr
  body_topics :: "jsstr list"
  body_frequency :: "jsstr option"
  body_subscriptionDate :: jsstr
  body_source :: jsstr

text \<open>What \<^verbatim>\<open>renderDashboard\<close> writes into the dashboard.\<close>

datatype dashboard_view =
    DashboardPlaceholder
  | DashboardActive jsstr "jsstr option" jsstr "(jsstr \<times> jsstr) list"

datatype timer_callback = HideToast | ScrollToSection jsstr

text \<open>
  The state of the page that the subscription handlers read and write: the global
  \<^verbatim>\<open>currentUser\<close>, the saved \<^verbatim>\<open>window.newsletterUser\<close>, the alerts shown, the
  requests sent, the class \<^verbatim>\<open>show\<close> of the toast, the content of the dashboard, and
  the timers set (delay in milliseconds and callback).
\<close>

record page =
  currentUser :: "user option"
  window_newsletterUser :: "user option"
  alerts :: "jsstr list"
  fetch_posts :: "(jsstr \<times> webhook_body) list"
  toast_show :: bool
  dashboardContent :: dashboard_view
  timeouts :: "(nat \<times> timer_callback) list"

definition required_fields_message :: jsstr where
  "required_fields_message =
     [35531, 22635, 23531, 25152, 26377, 24517, 22635, 27396, 20301]"

definition webhook_url :: jsstr where
  "webhook_url =
     str ''https://waynetang.zeabur.app/webhook/7f609c50-3951-4b65-897d-3c4b020b9701''"

text \<open>\<^verbatim>\<open>function saveCurrentUser(user) { window.newsletterUser = user; }\<close>\<close>

definition saveCurrentUser :: "user \<Rightarrow> page \<Rightarrow> page" where
  "saveCurrentUser u s = s\<lparr>window_newsletterUser := Some u\<rparr>"

text \<open>
  \<^verbatim>\<open>showSuccessToast\<close> adds the class \<^verbatim>\<open>show\<close> to the toast and sets a timer of
  3000 ms that removes it.
\<close>

definition showSuccessToast :: "page \<Rightarrow> page" where
  "showSuccessToast s = s\<lparr>toast_show := True, timeouts := timeouts s @ [(3000, HideToast)]\<rparr>"

text \<open>
  \<^verbatim>\<open>renderDashboard\<close>: the placeholder when \<^verbatim>\<open>currentUser\<close> is null. Otherwise
  the label of the frequency (\<^verbatim>\<open>find(...)?.label || currentUser.frequency\<close>) and,
  for each topic of the user that \<^verbatim>\<open>appData.topics\<close> knows, its display name and
  colour (\<^verbatim>\<open>map\<close>, then \<^verbatim>\<open>filter(Boolean)\<close>).
\<close>

definition frequencyLabel :: "jsstr option \<Rightarrow> jsstr option" where
  "frequencyLabel fr =
     (case find (\<lambda>f. Some (fst f) = fr) appData_newsletterFrequencies of
        Some f \<Rightarrow> if snd f \<noteq> [] then Some (snd f) else fr
      | None \<Rightarrow> fr)"

definition subscribedTopicsInfo :: "jsstr list \<Rightarrow> (jsstr \<times> jsstr) list" where
  "subscribedTopicsInfo ts =
     List.map_filter
       (\<lambda>topicName. map_option snd (find (\<lambda>t. fst t = topicName) appData_topics)) ts"

definition renderDashboard :: "page \<Rightarrow> page" where
  "renderDashboard s =
     (case currentUser s of
        None \<Rightarrow> s\<lparr>dashboardContent := DashboardPlaceholder\<rparr>
      | Some u \<Rightarrow>
          s\<lparr>dashboardContent :=
              DashboardActive (email u) (frequencyLabel (frequency u)) (subscriptionDate u)
                (subscribedTopicsInfo (topics u))\<rparr>)"

text \<open>
  \<^verbatim>\<open>
  function handleSubscription() {
      const email = formData.get('email');
      const frequency = formData.get('frequency');
      const selectedTopics = formData.getAll('topics');
      if (!email || selectedTopics.length === 0) {
          alert(...);
          return;
      }
      currentUser = {email, frequency, topics: selectedTopics,
          subscriptionDate: new Date().toISOString().split('T')[0], status: 'active'};
      saveCurrentUser(currentUser);
      fetch(webhook, {method: 'POST', ..., body: JSON.stringify({email, topics,
          frequency, subscriptionDate: new Date().toISOString(), source: 'insight_hub_web'})})
      showSuccessToast();
      renderDashboard();
      setTimeout(() => { scrollToSection('dashboard'); }, 1000);
  }
  \<close>
  \<open>iso1\<close> and \<open>iso2\<close> are what the two calls of \<^verbatim>\<open>new Date().toISOString()\<close>
  give. The callbacks of the promise of \<^verbatim>\<open>fetch\<close> run after the handler has
  returned.
\<close>

definition handleSubscription :: "form_data \<Rightarrow> jsstr \<Rightarrow> jsstr \<Rightarrow> page \<Rightarrow> page" where
  "handleSubscription form iso1 iso2 s =
     (case form_email form of
        None \<Rightarrow> s\<lparr>alerts := alerts s @ [required_fields_message]\<rparr>
      | Some e \<Rightarrow>
          if e = [] \<or> length (form_topics form) = 0
          then s\<lparr>alerts := alerts s @ [required_fields_message]\<rparr>
          else
            let u = \<lparr>email = e, frequency = form_frequency form, topics = form_topics form,
                      subscriptionDate = takeWhile (\<lambda>c. c \<noteq> 84) iso1,
                      status = str ''active''\<rparr>;
                s1 = s\<lparr>currentUser := Some u\<rparr>;
                s2 = saveCurrentUser u s1;
                s3 = s2\<lparr>fetch_posts := fetch_posts s2 @
                       [(webhook_url,
                         \<lparr>body_email = e, body_topics = form_topics form,
                          body_frequency = form_frequency form,
                          body_subscriptionDate = iso2,
                          body_source = str ''insight_hub_web''\<rparr>)]\<rparr>;
                s4 = showSuccessToast s3;
                s5 = renderDashboard s4
            in s5\<lparr>timeouts := timeouts s5 @ [(1000, ScrollToSection (str ''dashboard''))]\<rparr>)"

section \<open>Properties\<close>

lemma length_str: "length (str s) = length s"
  by (simp add: str_def)

subsection \<open>The summarizer\<close>

text \<open>
  C9, as the claim states it, fails: on a content of six characters and a target length of
  three, \<open>generate_summary\<close> returns the first three characters of its input followed by
  an ellipsis. The summarizer itself truncates its input.
\<close>

theorem generate_summary_counterexample:
  "generate_summary (str ''abcdef'') 3 = str ''abc...''"
  by (simp add: generate_summary_def slice_to_def str_def)

text \<open>
  C9 (amended): for every content and every target length \<open>m \<ge> 0\<close>,
  \<open>generate_summary\<close> returns a value (it has no failure branch): the content itself when
  it has at most \<open>m\<close> characters, and otherwise its first \<open>m\<close> characters followed by
  three dots. The result is at most \<open>m + 3\<close> characters long and starts with the first
  \<open>m\<close> characters of the content.
\<close>

theorem generate_summary_truncates:
  "0 \<le> m \<Longrightarrow>
     (length c \<le> nat m \<longrightarrow> generate_summary c m = c)
   \<and> (nat m < length c \<longrightarrow> generate_summary c m = take (nat m) c @ str ''...'')
   \<and> length (generate_summary c m) \<le> nat m + 3
   \<and> prefix (take (nat m) c) (generate_summary c m)"
  by (auto simp: generate_summary_def slice_to_def length_str take_is_prefix)

text \<open>The amended C9 at a content longer than the target and at one within it.\<close>

theorem generate_summary_truncates_witness:
  "(0::int) \<le> 3
   \<and> generate_summary (str ''abcdef'') 3 = str ''abc...''
   \<and> generate_summary (str ''abc'') 3 = str ''abc''"
  using generate_summary_truncates [of 3 "str ''abcdef''"]
    generate_summary_truncates [of 3 "str ''abc''"]
  by (simp add: str_def)

text \<open>A negative target length cuts from the end, and the ellipsis is always added.\<close>

lemma generate_summary_negative:
  "m < 0 \<Longrightarrow> generate_summary c m = take (length c - nat (- m)) c @ str ''...''"
  by (auto simp: generate_summary_def slice_to_def)

subsection \<open>URL detection\<close>

lemma match_url_at_iff:
  "match_url_at s \<longleftrightarrow>
     (\<exists>c rest. \<not> py_isspace c \<and>
        (s = str ''http://'' @ c # rest \<or> s = str ''https://'' @ c # rest))"
proof -
  have ns: "nonspace_head t \<longleftrightarrow> (\<exists>c rest. t = c # rest \<and> \<not> py_isspace c)" for t
    by (cases t) auto
  have pre: "prefix p s \<and> nonspace_head (drop (length p) s)
      \<longleftrightarrow> (\<exists>c rest. \<not> py_isspace c \<and> s = p @ c # rest)" for p
    by (auto simp: ns prefix_def)
  have l7: "length (str ''http://'') = 7" and l8: "length (str ''https://'') = 8"
    by (simp_all add: str_def)
  show ?thesis
    unfolding match_url_at_def using pre [of "str ''http://''"] pre [of "str ''https://''"]
    unfolding l7 l8 by blast
qed

text \<open>
  C3, as the claim states it, fails: \<open>is_url\<close> returns one truth value, not a sequence of
  URLs. A text with four distinct URLs and a text with one URL give the same result
  \<open>True\<close>, so the result carries neither the URLs, nor their order, nor a cap of three.
\<close>

theorem is_url_counterexample:
  "is_url (str ''http://a.io http://b.io http://c.io http://d.io'') = True
   \<and> is_url (str ''http://a.io'') = True"
  by (simp add: str_def match_url_at_def py_isspace_def)

text \<open>
  C3 (amended): for every message text, \<open>is_url\<close> returns a truth value. It is true exactly
  when the text contains \<^verbatim>\<open>http://\<close> or \<^verbatim>\<open>https://\<close> followed at once by a
  character that is not whitespace; a text with no such occurrence (no URL, or another
  scheme only) gives false.
\<close>

theorem is_url_detects:
  "is_url t \<longleftrightarrow>
     (\<exists>pre c rest. \<not> py_isspace c \<and>
        (t = pre @ str ''http://'' @ c # rest \<or> t = pre @ str ''https://'' @ c # rest))"
proof (induction t)
  case Nil
  then show ?case by (simp add: str_def)
next
  case (Cons a t)
  show ?case (is "?L \<longleftrightarrow> ?R")
  proof
    assume ?L
    then consider "match_url_at (a # t)" | "is_url t" by auto
    then show ?R
    proof cases
      case 1
      then obtain c rest where "\<not> py_isspace c"
        "a # t = str ''http://'' @ c # rest \<or> a # t = str ''https://'' @ c # rest"
        unfolding match_url_at_iff by blast
      then have "\<not> py_isspace c \<and>
        (a # t = [] @ str ''http://'' @ c # rest \<or> a # t = [] @ str ''https://'' @ c # rest)"
        by simp
      then show ?thesis by blast
    next
      case 2
      then obtain pre c rest where "\<not> py_isspace c"
        "t = pre @ str ''http://'' @ c # rest \<or> t = pre @ str ''https://'' @ c # rest"
        using Cons.IH by blast
      then have "\<not> py_isspace c \<and>
        (a # t = (a # pre) @ str ''http://'' @ c # rest
          \<or> a # t = (a # pre) @ str ''https://'' @ c # rest)"
        by simp
      then show ?thesis by blast
    qed
  next
    assume ?R
    then obtain pre c rest where h: "\<not> py_isspace c"
      "a # t = pre @ str ''http://'' @ c # rest \<or> a # t = pre @ str ''https://'' @ c # rest"
      by blast
    show ?L
    proof (cases pre)
      case Nil
      with h have "match_url_at (a # t)" unfolding match_url_at_iff by auto
      then show ?thesis by simp
    next
      case (Cons b pre')
      with h have "t = pre' @ str ''http://'' @ c # rest \<or> t = pre' @ str ''https://'' @ c # rest"
        by auto
      with h(1) have "is_url t" using Cons.IH by blast
      then show ?thesis by simp
    qed
  qed
qed

text \<open>The amended C3 at a text that holds one HTTPS URL after other words.\<close>

theorem is_url_detects_witness:
  "is_url (str ''see https://a.io'')"
proof -
  have "\<not> py_isspace 97 \<and>
      (str ''see https://a.io'' = str ''see '' @ str ''http://'' @ 97 # str ''.io''
       \<or> str ''see https://a.io'' = str ''see '' @ str ''https://'' @ 97 # str ''.io'')"
    by (simp add: str_def py_isspace_def)
  then show ?thesis
    unfolding is_url_detects by blast
qed

text \<open>Another scheme, and a scheme with nothing after it, are not detected.\<close>

lemma is_url_rejects:
  "is_url (str ''ftp://a.io'') = False" "is_url (str ''see http:// x'') = False"
  by (simp_all add: str_def match_url_at_def py_isspace_def)

subsection \<open>Reading the card literal\<close>


lemma card_image_flex: "card_image (flex_message h t p i u) = Some (of_pyval h)"
  by (simp add: card_image_def flex_message_def)

lemma card_texts_flex: "card_texts (flex_message h t p i u) = [Some (of_pyval t), Some (JStr p)]"
  by (simp add: card_texts_def body_contents_def flex_message_def has_type_def str_def)

lemma card_title_flex: "card_title (flex_message h t p i u) = Some (of_pyval t)"
  by (simp add: card_title_def card_texts_flex)

lemma card_preview_flex: "card_preview (flex_message h t p i u) = Some (JStr p)"
  by (simp add: card_preview_def card_texts_flex)

lemma card_buttons_styles: "map button_style (card_buttons (flex_message h t p i u)) =
   [Some (JStr (str ''primary'')), Some (JStr (str ''secondary'')), Some (JStr (str ''secondary''))]"
  by (simp add: card_buttons_def body_contents_def footer_contents_def flex_message_def has_type_def button_style_def str_def)

lemma card_buttons_types: "map (action_field ''type'') (card_buttons (flex_message h t p i u)) =
   [Some (JStr (str ''uri'')), Some (JStr (str ''uri'')), Some (JStr (str ''postback''))]"
  by (simp add: card_buttons_def body_contents_def footer_contents_def flex_message_def has_type_def action_field_def str_def)

lemma card_buttons_uris: "map (action_field ''uri'') (card_buttons (flex_message h t p i u)) =
   [Some (JStr (str ''https://your-liff-app.com/edit/'' @ format_value i)), Some (of_pyval u), None]"
  by (simp add: card_buttons_def body_contents_def footer_contents_def flex_message_def has_type_def action_field_def str_def)

lemma card_buttons_data: "map (action_field ''data'') (card_buttons (flex_message h t p i u)) =
   [None, None, Some (JStr (str ''save|'' @ format_value i))]"
  by (simp add: card_buttons_def body_contents_def footer_contents_def flex_message_def has_type_def action_field_def str_def)

lemma create_bookmark_card_Inr:
  "create_bookmark_card bd = Inr c \<longleftrightarrow>
     (\<exists>s t i u. main_content bd = VStr s \<and> bd (str ''title'') = Some t \<and> bd (str ''id'') = Some i
        \<and> bd (str ''url'') = Some u \<and> c = flex_message (image_url bd) t (truncate_preview s) i u)"
  by (cases "main_content bd")
     (auto simp: create_bookmark_card_def dict_index_def split: option.splits)

lemma image_url_truthy: "truthy (image_url bd)"
  by (simp add: image_url_def py_or_def default_icon_def str_def)


lemma card_buttons_labels: "map (action_field ''label'') (card_buttons (flex_message h t p i u)) =
   [Some (JStr edit_label), Some (JStr read_label), Some (JStr save_label)]"
  by (simp add: card_buttons_def body_contents_def footer_contents_def flex_message_def has_type_def action_field_def str_def)

lemma length_truncate_preview: "length (truncate_preview s) \<le> 103"
  by (simp add: truncate_preview_def length_str)

lemma create_bookmark_card_ok:
  "main_content bd = VStr s \<Longrightarrow> bd (str ''title'') = Some t \<Longrightarrow> bd (str ''id'') = Some i
   \<Longrightarrow> bd (str ''url'') = Some u
   \<Longrightarrow> create_bookmark_card bd = Inr (flex_message (image_url bd) t (truncate_preview s) i u)"
  by (simp add: create_bookmark_card_Inr)

subsection \<open>The card composer\<close>

text \<open>
  C4, as the claim states it, fails twice. A bookmark that has an identity and a URL but no
  title makes \<open>create_bookmark_card\<close> raise KeyError for \<^verbatim>\<open>'title'\<close>. With a
  title, and with neither \<^verbatim>\<open>content_markdown\<close> nor \<^verbatim>\<open>description\<close>,
  the preview text of the card is the empty string: there is no placeholder.
\<close>

theorem create_bookmark_card_minimal_counterexample:
  "create_bookmark_card
      [str ''id'' \<mapsto> VStr (str ''42''), str ''url'' \<mapsto> VStr (str ''https://example.com/a'')]
     = Inl (KeyError (str ''title''))
   \<and> (case create_bookmark_card
          [str ''id'' \<mapsto> VStr (str ''42''), str ''url'' \<mapsto> VStr (str ''https://example.com/a''),
           str ''title'' \<mapsto> VStr (str ''A'')]
        of Inr c \<Rightarrow> card_preview c | Inl e \<Rightarrow> None) = Some (JStr [])"
  by (simp add: create_bookmark_card_def main_content_def dict_get_def dict_index_def
      truncate_preview_def card_preview_flex str_def)

text \<open>
  C4 (amended): for every bookmark that has the keys \<^verbatim>\<open>title\<close>, \<^verbatim>\<open>id\<close> and
  \<^verbatim>\<open>url\<close> and none of \<^verbatim>\<open>content_markdown\<close>, \<^verbatim>\<open>description\<close>,
  \<^verbatim>\<open>image_url\<close> and \<^verbatim>\<open>preview_image\<close>, the composer does not raise and
  returns a card whose image is the default icon URL (which is not empty), whose title
  text is the given title, and whose preview text is the empty string.
\<close>

theorem create_bookmark_card_minimal:
  assumes "bd (str ''title'') = Some t" and "bd (str ''id'') = Some i"
    and "bd (str ''url'') = Some u"
    and "bd (str ''content_markdown'') = None" and "bd (str ''description'') = None"
    and "bd (str ''image_url'') = None" and "bd (str ''preview_image'') = None"
  shows "\<exists>c. create_bookmark_card bd = Inr c
     \<and> card_image c = Some (JStr default_icon) \<and> default_icon \<noteq> []
     \<and> card_title c = Some (of_pyval t)
     \<and> card_preview c = Some (JStr [])"
proof -
  have mc: "main_content bd = VStr []"
    using assms by (simp add: main_content_def dict_get_def)
  have img: "image_url bd = VStr default_icon"
    using assms by (simp add: image_url_def dict_get_def py_or_def)
  have "create_bookmark_card bd = Inr (flex_message (VStr default_icon) t [] i u)"
    using assms mc img
    by (simp add: create_bookmark_card_def dict_index_def truncate_preview_def)
  moreover have "default_icon \<noteq> []"
    by (simp add: default_icon_def str_def)
  ultimately show ?thesis
    by (simp add: card_image_flex card_title_flex card_preview_flex)
qed

text \<open>
  The amended C4 at a bookmark with identity 42, title A and a URL, and nothing else.
\<close>

theorem create_bookmark_card_minimal_witness:
  "\<exists>c. create_bookmark_card
      [str ''id'' \<mapsto> VStr (str ''42''), str ''url'' \<mapsto> VStr (str ''https://example.com/a''),
       str ''title'' \<mapsto> VStr (str ''A'')] = Inr c
     \<and> card_image c = Some (JStr default_icon)
     \<and> card_title c = Some (JStr (str ''A''))
     \<and> card_preview c = Some (JStr [])"
proof -
  let ?bd = "[str ''id'' \<mapsto> VStr (str ''42''), str ''url'' \<mapsto> VStr (str ''https://example.com/a''),
       str ''title'' \<mapsto> VStr (str ''A'')]"
  have "\<exists>c. create_bookmark_card ?bd = Inr c
     \<and> card_image c = Some (JStr default_icon) \<and> default_icon \<noteq> []
     \<and> card_title c = Some (of_pyval (VStr (str ''A'')))
     \<and> card_preview c = Some (JStr [])"
    by (rule create_bookmark_card_minimal) (simp_all add: str_def)
  then show ?thesis by auto
qed

text \<open>
  C5, as the claim states it, fails: a main content of 101 characters gives a preview text
  of 103 characters, the first hundred followed by three dots.
\<close>

theorem content_preview_counterexample:
  "(case create_bookmark_card
          [str ''id'' \<mapsto> VStr (str ''42''), str ''url'' \<mapsto> VStr (str ''https://example.com/a''),
           str ''title'' \<mapsto> VStr (str ''A''), str ''content_markdown'' \<mapsto> VStr (replicate 101 97)]
    of Inr c \<Rightarrow> (case card_preview c of Some (JStr p) \<Rightarrow> length p | _ \<Rightarrow> 0) | Inl e \<Rightarrow> 0) = 103"
  by (simp add: create_bookmark_card_def main_content_def dict_get_def dict_index_def
      truncate_preview_def card_preview_flex str_def)

text \<open>
  C5 (amended): for every composed card, the preview text is at most 103 characters long.
  It is the main content itself when that has at most 100 characters, and otherwise the
  first 100 code points of the main content followed by three dots (103 characters). The
  cut is counted in code points, so every character of the preview is a whole character of
  the main content or a dot of the ellipsis.
\<close>

theorem content_preview_length:
  "create_bookmark_card bd = Inr c \<Longrightarrow>
     \<exists>s p. main_content bd = VStr s \<and> card_preview c = Some (JStr p)
       \<and> length p \<le> 103
       \<and> (length s \<le> 100 \<longrightarrow> p = s)
       \<and> (100 < length s \<longrightarrow> p = take 100 s @ str ''...'' \<and> length p = 103)"
  unfolding create_bookmark_card_Inr
  by (auto simp: card_preview_flex truncate_preview_def length_str)

text \<open>
  The amended C5 at a main content of 101 letters.
\<close>

theorem content_preview_length_witness:
  "\<exists>c p. create_bookmark_card
          [str ''id'' \<mapsto> VStr (str ''42''), str ''url'' \<mapsto> VStr (str ''https://example.com/a''),
           str ''title'' \<mapsto> VStr (str ''A''), str ''content_markdown'' \<mapsto> VStr (replicate 101 97)]
        = Inr c
     \<and> card_preview c = Some (JStr p) \<and> p = replicate 100 97 @ str ''...'' \<and> length p = 103"
proof -
  let ?bd = "[str ''id'' \<mapsto> VStr (str ''42''), str ''url'' \<mapsto> VStr (str ''https://example.com/a''),
           str ''title'' \<mapsto> VStr (str ''A''), str ''content_markdown'' \<mapsto> VStr (replicate 101 97)]"
  have mc: "main_content ?bd = VStr (replicate 101 97)"
    by (simp add: main_content_def dict_get_def str_def)
  have "\<exists>c. create_bookmark_card ?bd = Inr c"
    using create_bookmark_card_ok [OF mc] by (simp add: str_def)
  then obtain c where c: "create_bookmark_card ?bd = Inr c" ..
  from content_preview_length [OF c] mc
  have "card_preview c = Some (JStr (replicate 100 97 @ str ''...''))
      \<and> length (replicate 100 (97::nat) @ str ''...'') = 103"
    by auto
  with c show ?thesis by blast
qed

text \<open>
  C6, as the claim states it, fails: with a summary S, a description D and a content C,
  the preview text is C. The summary is not read, and the content comes before the
  description.
\<close>

theorem main_content_counterexample:
  "(case create_bookmark_card
          [str ''id'' \<mapsto> VStr (str ''42''), str ''url'' \<mapsto> VStr (str ''https://example.com/a''),
           str ''title'' \<mapsto> VStr (str ''A''), str ''summary'' \<mapsto> VStr (str ''S''),
           str ''description'' \<mapsto> VStr (str ''D''), str ''content_markdown'' \<mapsto> VStr (str ''C'')]
    of Inr c \<Rightarrow> card_preview c | Inl e \<Rightarrow> None) = Some (JStr (str ''C''))"
  by (simp add: create_bookmark_card_def main_content_def dict_get_def dict_index_def
      truncate_preview_def card_preview_flex str_def)

text \<open>
  C6 (amended): for every composed card, the preview text is \<^verbatim>\<open>content_markdown\<close>
  when the bookmark has that key; otherwise \<^verbatim>\<open>description\<close> when it has that key;
  otherwise the empty string. The text chosen is kept when it has at most 100 characters
  and is otherwise cut to 100 characters followed by three dots (\<open>truncate_preview\<close>).
  The key \<^verbatim>\<open>summary\<close> has no effect on the card.
\<close>

theorem main_content_chain:
  "create_bookmark_card bd = Inr c \<Longrightarrow>
     (\<forall>s. bd (str ''content_markdown'') = Some (VStr s)
        \<longrightarrow> card_preview c = Some (JStr (truncate_preview s)))
   \<and> (\<forall>s. bd (str ''content_markdown'') = None \<and> bd (str ''description'') = Some (VStr s)
        \<longrightarrow> card_preview c = Some (JStr (truncate_preview s)))
   \<and> (bd (str ''content_markdown'') = None \<and> bd (str ''description'') = None
        \<longrightarrow> card_preview c = Some (JStr []))
   \<and> create_bookmark_card (bd(str ''summary'' := x)) = Inr c"
proof -
  assume a: "create_bookmark_card bd = Inr c"
  have k: "str ''content_markdown'' \<noteq> str ''summary''" "str ''description'' \<noteq> str ''summary''"
    "str ''title'' \<noteq> str ''summary''" "str ''id'' \<noteq> str ''summary''"
    "str ''url'' \<noteq> str ''summary''" "str ''image_url'' \<noteq> str ''summary''"
    "str ''preview_image'' \<noteq> str ''summary''"
    by (simp_all add: str_def)
  have "main_content (bd(str ''summary'' := x)) = main_content bd"
    "image_url (bd(str ''summary'' := x)) = image_url bd"
    "dict_index (bd(str ''summary'' := x)) (str ''title'') = dict_index bd (str ''title'')"
    "dict_index (bd(str ''summary'' := x)) (str ''id'') = dict_index bd (str ''id'')"
    "dict_index (bd(str ''summary'' := x)) (str ''url'') = dict_index bd (str ''url'')"
    using k by (simp_all add: main_content_def image_url_def dict_get_def dict_index_def)
  then have "create_bookmark_card (bd(str ''summary'' := x)) = create_bookmark_card bd"
    by (simp only: create_bookmark_card_def)
  moreover from a have "\<exists>s. main_content bd = VStr s \<and> card_preview c = Some (JStr (truncate_preview s))"
    unfolding create_bookmark_card_Inr by (auto simp: card_preview_flex)
  ultimately show ?thesis
    using a by (auto simp: main_content_def dict_get_def truncate_preview_def)
qed

text \<open>
  The amended C6 at a bookmark with a description and no content.
\<close>

theorem main_content_chain_witness:
  "\<exists>c. create_bookmark_card
          [str ''id'' \<mapsto> VStr (str ''42''), str ''url'' \<mapsto> VStr (str ''https://example.com/a''),
           str ''title'' \<mapsto> VStr (str ''A''), str ''description'' \<mapsto> VStr (str ''D'')] = Inr c
     \<and> card_preview c = Some (JStr (str ''D''))"
proof -
  let ?bd = "[str ''id'' \<mapsto> VStr (str ''42''), str ''url'' \<mapsto> VStr (str ''https://example.com/a''),
           str ''title'' \<mapsto> VStr (str ''A''), str ''description'' \<mapsto> VStr (str ''D'')]"
  have mc: "main_content ?bd = VStr (str ''D'')"
    by (simp add: main_content_def dict_get_def str_def)
  have "\<exists>c. create_bookmark_card ?bd = Inr c"
    using create_bookmark_card_ok [OF mc] by (simp add: str_def)
  then obtain c where c: "create_bookmark_card ?bd = Inr c" ..
  have d: "?bd (str ''content_markdown'') = None \<and> ?bd (str ''description'') = Some (VStr (str ''D''))"
    by (simp add: str_def)
  from main_content_chain [OF c] d have "card_preview c = Some (JStr (truncate_preview (str ''D'')))"
    by blast
  then have p: "card_preview c = Some (JStr (str ''D''))"
    by (simp add: truncate_preview_def length_str)
  show ?thesis
  proof (intro exI conjI)
    show "create_bookmark_card ?bd = Inr c" by (fact c)
  qed (fact p)
qed

text \<open>
  C7: the image of the card is \<^verbatim>\<open>image_url\<close> when the bookmark has a non-empty
  one; otherwise \<^verbatim>\<open>preview_image\<close> when it has a non-empty one; otherwise the
  default icon URL. The image chosen is never empty and never \<^verbatim>\<open>None\<close>; it is the
  image of every card the composer returns; and the composer returns a card with that
  image for every bookmark that has a title, an identity, a URL and a main content that is
  not \<^verbatim>\<open>None\<close>, whatever its images are.
\<close>

theorem image_url_chain:
  "(truthy (dict_get bd (str ''image_url'') VNone)
      \<longrightarrow> image_url bd = dict_get bd (str ''image_url'') VNone)
   \<and> (\<not> truthy (dict_get bd (str ''image_url'') VNone)
        \<and> truthy (dict_get bd (str ''preview_image'') VNone)
      \<longrightarrow> image_url bd = dict_get bd (str ''preview_image'') VNone)
   \<and> (\<not> truthy (dict_get bd (str ''image_url'') VNone)
        \<and> \<not> truthy (dict_get bd (str ''preview_image'') VNone)
      \<longrightarrow> image_url bd = VStr default_icon)
   \<and> truthy (image_url bd)
   \<and> (create_bookmark_card bd = Inr c
      \<longrightarrow> card_image c = Some (of_pyval (image_url bd))
        \<and> card_image c \<noteq> Some (JStr []) \<and> card_image c \<noteq> Some JNone)
   \<and> (main_content bd \<noteq> VNone \<and> bd (str ''title'') \<noteq> None \<and> bd (str ''id'') \<noteq> None
        \<and> bd (str ''url'') \<noteq> None
      \<longrightarrow> (\<exists>c'. create_bookmark_card bd = Inr c'
            \<and> card_image c' = Some (of_pyval (image_url bd))))"
proof -
  have t: "truthy (image_url bd)"
    by (rule image_url_truthy)
  have card: "card_image k = Some (of_pyval (image_url bd))"
    if "create_bookmark_card bd = Inr k" for k
    using that unfolding create_bookmark_card_Inr by (auto simp: card_image_flex)
  have ne: "of_pyval (image_url bd) \<noteq> JStr [] \<and> of_pyval (image_url bd) \<noteq> JNone"
    using t by (cases "image_url bd") auto
  have ex: "\<exists>c'. create_bookmark_card bd = Inr c' \<and> card_image c' = Some (of_pyval (image_url bd))"
    if "main_content bd \<noteq> VNone" "bd (str ''title'') \<noteq> None" "bd (str ''id'') \<noteq> None"
      "bd (str ''url'') \<noteq> None"
  proof -
    from that obtain s t' i u where "main_content bd = VStr s" "bd (str ''title'') = Some t'"
      "bd (str ''id'') = Some i" "bd (str ''url'') = Some u"
      by (cases "main_content bd") auto
    then have "create_bookmark_card bd
        = Inr (flex_message (image_url bd) t' (truncate_preview s) i u)"
      by (rule create_bookmark_card_ok)
    then show ?thesis
      by (simp add: card_image_flex)
  qed
  have chain: "(truthy (dict_get bd (str ''image_url'') VNone)
      \<longrightarrow> image_url bd = dict_get bd (str ''image_url'') VNone)
   \<and> (\<not> truthy (dict_get bd (str ''image_url'') VNone)
        \<and> truthy (dict_get bd (str ''preview_image'') VNone)
      \<longrightarrow> image_url bd = dict_get bd (str ''preview_image'') VNone)
   \<and> (\<not> truthy (dict_get bd (str ''image_url'') VNone)
        \<and> \<not> truthy (dict_get bd (str ''preview_image'') VNone)
      \<longrightarrow> image_url bd = VStr default_icon)"
    by (simp add: image_url_def py_or_def)
  from chain t card [of c] ne ex show ?thesis
    by (intro conjI impI) (simp_all del: truthy.simps)
qed

text \<open>
  C7 at three bookmarks with identity 42, title A and a URL: one with a hero image, one
  with an empty hero image and a preview image, one with neither. Each gives a card, with
  the hero image, the preview image and the default icon.
\<close>

theorem image_url_chain_witness:
  "(\<exists>c. create_bookmark_card
        [str ''id'' \<mapsto> VStr (str ''42''), str ''url'' \<mapsto> VStr (str ''https://example.com/a''),
         str ''title'' \<mapsto> VStr (str ''A''),
         str ''image_url'' \<mapsto> VStr (str ''https://h.example/y.png''),
         str ''preview_image'' \<mapsto> VStr (str ''https://p.example/x.png'')] = Inr c
      \<and> card_image c = Some (JStr (str ''https://h.example/y.png'')))
   \<and> (\<exists>c. create_bookmark_card
        [str ''id'' \<mapsto> VStr (str ''42''), str ''url'' \<mapsto> VStr (str ''https://example.com/a''),
         str ''title'' \<mapsto> VStr (str ''A''), str ''image_url'' \<mapsto> VStr [],
         str ''preview_image'' \<mapsto> VStr (str ''https://p.example/x.png'')] = Inr c
      \<and> card_image c = Some (JStr (str ''https://p.example/x.png'')))
   \<and> (\<exists>c. create_bookmark_card
        [str ''id'' \<mapsto> VStr (str ''42''), str ''url'' \<mapsto> VStr (str ''https://example.com/a''),
         str ''title'' \<mapsto> VStr (str ''A'')] = Inr c
      \<and> card_image c = Some (JStr default_icon))"
proof -
  let ?b1 = "[str ''id'' \<mapsto> VStr (str ''42''), str ''url'' \<mapsto> VStr (str ''https://example.com/a''),
         str ''title'' \<mapsto> VStr (str ''A''),
         str ''image_url'' \<mapsto> VStr (str ''https://h.example/y.png''),
         str ''preview_image'' \<mapsto> VStr (str ''https://p.example/x.png'')]"
  let ?b2 = "[str ''id'' \<mapsto> VStr (str ''42''), str ''url'' \<mapsto> VStr (str ''https://example.com/a''),
         str ''title'' \<mapsto> VStr (str ''A''), str ''image_url'' \<mapsto> VStr [],
         str ''preview_image'' \<mapsto> VStr (str ''https://p.example/x.png'')]"
  let ?b3 = "[str ''id'' \<mapsto> VStr (str ''42''), str ''url'' \<mapsto> VStr (str ''https://example.com/a''),
         str ''title'' \<mapsto> VStr (str ''A'')]"
  have k1: "main_content ?b1 \<noteq> VNone \<and> ?b1 (str ''title'') \<noteq> None \<and> ?b1 (str ''id'') \<noteq> None
      \<and> ?b1 (str ''url'') \<noteq> None"
    by (simp add: main_content_def dict_get_def str_def)
  have k2: "main_content ?b2 \<noteq> VNone \<and> ?b2 (str ''title'') \<noteq> None \<and> ?b2 (str ''id'') \<noteq> None
      \<and> ?b2 (str ''url'') \<noteq> None"
    by (simp add: main_content_def dict_get_def str_def)
  have k3: "main_content ?b3 \<noteq> VNone \<and> ?b3 (str ''title'') \<noteq> None \<and> ?b3 (str ''id'') \<noteq> None
      \<and> ?b3 (str ''url'') \<noteq> None"
    by (simp add: main_content_def dict_get_def str_def)
  have g1: "dict_get ?b1 (str ''image_url'') VNone = VStr (str ''https://h.example/y.png'')"
    by (simp add: dict_get_def str_def)
  have g2: "dict_get ?b2 (str ''image_url'') VNone = VStr []"
    "dict_get ?b2 (str ''preview_image'') VNone = VStr (str ''https://p.example/x.png'')"
    by (simp_all add: dict_get_def str_def)
  have g3: "dict_get ?b3 (str ''image_url'') VNone = VNone"
    "dict_get ?b3 (str ''preview_image'') VNone = VNone"
    by (simp_all add: dict_get_def str_def)
  have i1: "image_url ?b1 = VStr (str ''https://h.example/y.png'')"
    using image_url_chain [of ?b1] g1 by (simp add: str_def)
  have i2: "image_url ?b2 = VStr (str ''https://p.example/x.png'')"
    using image_url_chain [of ?b2] g2 by (simp add: str_def)
  have i3: "image_url ?b3 = VStr default_icon"
    using image_url_chain [of ?b3] g3 by simp
  have "\<exists>c. create_bookmark_card ?b1 = Inr c \<and> card_image c = Some (of_pyval (image_url ?b1))"
    using image_url_chain [of ?b1] k1 by blast
  then have r1: "\<exists>c. create_bookmark_card ?b1 = Inr c
      \<and> card_image c = Some (JStr (str ''https://h.example/y.png''))"
    unfolding i1 by simp
  have "\<exists>c. create_bookmark_card ?b2 = Inr c \<and> card_image c = Some (of_pyval (image_url ?b2))"
    using image_url_chain [of ?b2] k2 by blast
  then have r2: "\<exists>c. create_bookmark_card ?b2 = Inr c
      \<and> card_image c = Some (JStr (str ''https://p.example/x.png''))"
    unfolding i2 by simp
  have "\<exists>c. create_bookmark_card ?b3 = Inr c \<and> card_image c = Some (of_pyval (image_url ?b3))"
    using image_url_chain [of ?b3] k3 by blast
  then have r3: "\<exists>c. create_bookmark_card ?b3 = Inr c \<and> card_image c = Some (JStr default_icon)"
    unfolding i3 by simp
  from r1 r2 r3 show ?thesis by (intro conjI)
qed

text \<open>
  C8, as the claim states it, fails: the card for the URL \<^verbatim>\<open>https://example.com/a\<close>
  has one button of primary style, and its action opens the edit page of the bookmark,
  not the original URL.
\<close>

theorem card_buttons_counterexample:
  "(case create_bookmark_card
          [str ''id'' \<mapsto> VStr (str ''42''), str ''url'' \<mapsto> VStr (str ''https://example.com/a''),
           str ''title'' \<mapsto> VStr (str ''A'')]
    of Inr c \<Rightarrow> map (action_field ''uri'') (buttons_of_style ''primary'' c) | Inl e \<Rightarrow> [])
   = [Some (JStr (str ''https://your-liff-app.com/edit/42''))]"
  by (simp add: create_bookmark_card_def main_content_def dict_get_def dict_index_def
      buttons_of_style_def card_buttons_def body_contents_def footer_contents_def flex_message_def
      has_type_def button_style_def action_field_def str_def)

text \<open>
  C8 (amended): every composed card has exactly three buttons, in this order, whatever the
  data: one of primary style whose URI action opens the edit page
  \<^verbatim>\<open>https://your-liff-app.com/edit/{id}\<close>; one of secondary style whose URI action
  opens the original URL; one of secondary style whose postback action carries
  \<^verbatim>\<open>save|{id}\<close>. Only the identity and the URL in the actions depend on the data.
\<close>

theorem card_buttons_fixed:
  "create_bookmark_card bd = Inr c \<Longrightarrow>
     \<exists>i u. bd (str ''id'') = Some i \<and> bd (str ''url'') = Some u
       \<and> map button_style (card_buttons c) =
           [Some (JStr (str ''primary'')), Some (JStr (str ''secondary'')),
            Some (JStr (str ''secondary''))]
       \<and> map (action_field ''type'') (card_buttons c) =
           [Some (JStr (str ''uri'')), Some (JStr (str ''uri'')), Some (JStr (str ''postback''))]
       \<and> map (action_field ''uri'') (card_buttons c) =
           [Some (JStr (str ''https://your-liff-app.com/edit/'' @ format_value i)),
            Some (of_pyval u), None]
       \<and> map (action_field ''data'') (card_buttons c) =
           [None, None, Some (JStr (str ''save|'' @ format_value i))]
       \<and> map (action_field ''label'') (card_buttons c) =
           [Some (JStr edit_label), Some (JStr read_label), Some (JStr save_label)]"
  unfolding create_bookmark_card_Inr
  using card_buttons_styles card_buttons_types card_buttons_uris card_buttons_data card_buttons_labels
  by auto

text \<open>
  The amended C8 at a bookmark with identity 42.
\<close>

theorem card_buttons_fixed_witness:
  "\<exists>c. create_bookmark_card
          [str ''id'' \<mapsto> VStr (str ''42''), str ''url'' \<mapsto> VStr (str ''https://example.com/a''),
           str ''title'' \<mapsto> VStr (str ''A'')] = Inr c
     \<and> map (action_field ''uri'') (card_buttons c) =
           [Some (JStr (str ''https://your-liff-app.com/edit/42'')),
            Some (JStr (str ''https://example.com/a'')), None]"
proof -
  let ?bd = "[str ''id'' \<mapsto> VStr (str ''42''), str ''url'' \<mapsto> VStr (str ''https://example.com/a''),
           str ''title'' \<mapsto> VStr (str ''A'')]"
  have mc: "main_content ?bd = VStr []"
    by (simp add: main_content_def dict_get_def str_def)
  have "\<exists>c. create_bookmark_card ?bd = Inr c"
    using create_bookmark_card_ok [OF mc] by (simp add: str_def)
  then obtain c where c: "create_bookmark_card ?bd = Inr c" ..
  have k: "?bd (str ''id'') = Some (VStr (str ''42''))"
    "?bd (str ''url'') = Some (VStr (str ''https://example.com/a''))"
    by (simp_all add: str_def)
  from card_buttons_fixed [OF c] k have
    "map (action_field ''uri'') (card_buttons c) =
       [Some (JStr (str ''https://your-liff-app.com/edit/'' @ format_value (VStr (str ''42'')))),
        Some (of_pyval (VStr (str ''https://example.com/a''))), None]"
    by auto
  then have u: "map (action_field ''uri'') (card_buttons c) =
           [Some (JStr (str ''https://your-liff-app.com/edit/42'')),
            Some (JStr (str ''https://example.com/a'')), None]"
    by (simp add: str_def)
  show ?thesis
  proof (intro exI conjI)
    show "create_bookmark_card ?bd = Inr c" by (fact c)
  qed (fact u)
qed

subsection \<open>Saving a bookmark\<close>

text \<open>The database reads the owner of the examples as itself, and refuses a short name.\<close>

lemma uuid_in_example:
  "uuid_in (str ''11111111-1111-4111-8111-111111111111'')
     = Some (str ''11111111-1111-4111-8111-111111111111'')"
  by (simp add: uuid_in_def uuid_digits.simps uuid_out_def hex_digit_def hex_char_def str_def)

lemma uuid_in_forms:
  "uuid_in (str ''{ABCDEF01-2345-6789-abcd-ef0123456789}'')
     = Some (str ''abcdef01-2345-6789-abcd-ef0123456789'')"
  "uuid_in (str ''abcdef0123456789abcdef0123456789'')
     = Some (str ''abcdef01-2345-6789-abcd-ef0123456789'')"
  "uuid_in (str ''u1'') = None"
  "uuid_in (str ''11111111-1111-4111-8111-111111111111 '') = None"
  by (simp_all add: uuid_in_def uuid_digits.simps uuid_out_def hex_digit_def hex_char_def
      str_def)

lemma create_bookmark_Inr:
  "create_bookmark env url user_id table = (Inr row, table') \<Longrightarrow>
     table' = table @ [row] \<and> col_id row = gen_random_uuid env
     \<and> col_id row \<notin> set (map col_id table)
     \<and> uuid_in user_id = Some (col_user_id row)
     \<and> auth_uid env = Some (col_user_id row)
     \<and> col_user_id row \<in> set (auth_users env)
     \<and> col_url row = url
     \<and> col_created_at row = now env \<and> col_updated_at row = now env"
  by (auto simp: create_bookmark_def create_bookmark_try_def insert_bookmark_def Let_def
      split: sum.splits crawl_result.splits option.splits if_splits)

lemma create_bookmark_Inl:
  "create_bookmark env url user_id table = (Inl e, table') \<Longrightarrow>
     table' = table \<and> (\<exists>detail. e = HTTPException 500 detail)"
  by (auto simp: create_bookmark_def split: sum.splits prod.splits)

lemma insert_bookmark_anon:
  "auth_uid env = None \<Longrightarrow> \<exists>e. insert_bookmark env user_id url t d c m table = Inl e"
  by (simp add: insert_bookmark_def split: option.splits)

lemma create_bookmark_anon:
  "auth_uid env = None \<Longrightarrow>
     \<exists>detail. create_bookmark env url user_id table = (Inl (HTTPException 500 detail), table)"
proof -
  assume a: "auth_uid env = None"
  have "\<exists>e. create_bookmark_try env url user_id table = Inl e"
    using insert_bookmark_anon [OF a]
    by (auto simp: create_bookmark_try_def split: crawl_result.splits sum.splits)
  then show ?thesis
    by (auto simp: create_bookmark_def)
qed

text \<open>
  C1, as the claim states it, fails. With the session of the client that the code builds
  (no signed-in user), two saves of the URL \<^verbatim>\<open>https://example.com/a\<close> for an owner
  of \<^verbatim>\<open>auth.users\<close> are both refused and leave no row. With a session of that owner,
  both saves succeed and leave two rows for that owner and URL.
\<close>

theorem create_bookmark_twice_counterexample:
  "rows_of (str ''11111111-1111-4111-8111-111111111111'') (str ''https://example.com/a'')
     (snd (create_bookmark
        \<lparr>extract_page_data = (\<lambda>u. CrawlSuccess
            [str ''title'' \<mapsto> VStr (str ''A''), str ''description'' \<mapsto> VStr (str ''D''),
             str ''content_markdown'' \<mapsto> VStr (str ''C''), str ''main_image'' \<mapsto> VNone]),
          exc_str = (\<lambda>e. []), gen_random_uuid = str ''aaaaaaaa-aaaa-4aaa-8aaa-aaaaaaaaaaa2'',
          now = 2, auth_users = [str ''11111111-1111-4111-8111-111111111111''],
          auth_uid = None, storage_fault = None\<rparr>
        (str ''https://example.com/a'') (str ''11111111-1111-4111-8111-111111111111'')
        (snd (create_bookmark
           \<lparr>extract_page_data = (\<lambda>u. CrawlSuccess
               [str ''title'' \<mapsto> VStr (str ''A''), str ''description'' \<mapsto> VStr (str ''D''),
                str ''content_markdown'' \<mapsto> VStr (str ''C''), str ''main_image'' \<mapsto> VNone]),
             exc_str = (\<lambda>e. []), gen_random_uuid = str ''aaaaaaaa-aaaa-4aaa-8aaa-aaaaaaaaaaa1'',
             now = 1, auth_users = [str ''11111111-1111-4111-8111-111111111111''],
             auth_uid = None, storage_fault = None\<rparr>
           (str ''https://example.com/a'') (str ''11111111-1111-4111-8111-111111111111'')
           [])))) = []
   \<and> length (rows_of (str ''11111111-1111-4111-8111-111111111111'') (str ''https://example.com/a'')
     (snd (create_bookmark
        \<lparr>extract_page_data = (\<lambda>u. CrawlSuccess
            [str ''title'' \<mapsto> VStr (str ''A''), str ''description'' \<mapsto> VStr (str ''D''),
             str ''content_markdown'' \<mapsto> VStr (str ''C''), str ''main_image'' \<mapsto> VNone]),
          exc_str = (\<lambda>e. []), gen_random_uuid = str ''aaaaaaaa-aaaa-4aaa-8aaa-aaaaaaaaaaa2'',
          now = 2, auth_users = [str ''11111111-1111-4111-8111-111111111111''],
          auth_uid = Some (str ''11111111-1111-4111-8111-111111111111''),
          storage_fault = None\<rparr>
        (str ''https://example.com/a'') (str ''11111111-1111-4111-8111-111111111111'')
        (snd (create_bookmark
           \<lparr>extract_page_data = (\<lambda>u. CrawlSuccess
               [str ''title'' \<mapsto> VStr (str ''A''), str ''description'' \<mapsto> VStr (str ''D''),
                str ''content_markdown'' \<mapsto> VStr (str ''C''), str ''main_image'' \<mapsto> VNone]),
             exc_str = (\<lambda>e. []), gen_random_uuid = str ''aaaaaaaa-aaaa-4aaa-8aaa-aaaaaaaaaaa1'',
             now = 1, auth_users = [str ''11111111-1111-4111-8111-111111111111''],
             auth_uid = Some (str ''11111111-1111-4111-8111-111111111111''),
             storage_fault = None\<rparr>
           (str ''https://example.com/a'') (str ''11111111-1111-4111-8111-111111111111'')
           []))))) = 2"
proof -
  let ?pd = "[str ''title'' \<mapsto> VStr (str ''A''), str ''description'' \<mapsto> VStr (str ''D''),
             str ''content_markdown'' \<mapsto> VStr (str ''C''), str ''main_image'' \<mapsto> VNone]"
  let ?o = "str ''11111111-1111-4111-8111-111111111111''"
  let ?url = "str ''https://example.com/a''"
  let ?i1 = "str ''aaaaaaaa-aaaa-4aaa-8aaa-aaaaaaaaaaa1''"
  let ?i2 = "str ''aaaaaaaa-aaaa-4aaa-8aaa-aaaaaaaaaaa2''"
  let ?n1 = "\<lparr>extract_page_data = (\<lambda>u. CrawlSuccess ?pd), exc_str = (\<lambda>e. []),
      gen_random_uuid = ?i1, now = 1, auth_users = [?o], auth_uid = None,
      storage_fault = None\<rparr>"
  let ?n2 = "\<lparr>extract_page_data = (\<lambda>u. CrawlSuccess ?pd), exc_str = (\<lambda>e. []),
      gen_random_uuid = ?i2, now = 2, auth_users = [?o], auth_uid = None,
      storage_fault = None\<rparr>"
  let ?a1 = "\<lparr>extract_page_data = (\<lambda>u. CrawlSuccess ?pd), exc_str = (\<lambda>e. []),
      gen_random_uuid = ?i1, now = 1, auth_users = [?o], auth_uid = Some ?o,
      storage_fault = None\<rparr>"
  let ?a2 = "\<lparr>extract_page_data = (\<lambda>u. CrawlSuccess ?pd), exc_str = (\<lambda>e. []),
      gen_random_uuid = ?i2, now = 2, auth_users = [?o], auth_uid = Some ?o,
      storage_fault = None\<rparr>"
  have ne: "?i2 \<noteq> ?i1"
    by (simp add: str_def)
  have n1: "snd (create_bookmark ?n1 ?url ?o []) = []"
    using create_bookmark_anon [of ?n1 ?url ?o "[]"] by auto
  have n2: "snd (create_bookmark ?n2 ?url ?o []) = []"
    using create_bookmark_anon [of ?n2 ?url ?o "[]"] by auto
  have d: "dict_index ?pd (str ''title'') = Inr (VStr (str ''A''))"
    "dict_index ?pd (str ''description'') = Inr (VStr (str ''D''))"
    "dict_index ?pd (str ''content_markdown'') = Inr (VStr (str ''C''))"
    "dict_index ?pd (str ''main_image'') = Inr VNone"
    by (simp_all add: dict_index_def str_def)
  have a1: "\<exists>r1. create_bookmark ?a1 ?url ?o [] = (Inr r1, [r1])
      \<and> col_id r1 = ?i1 \<and> col_user_id r1 = ?o \<and> col_url r1 = ?url"
    by (simp add: create_bookmark_def create_bookmark_try_def insert_bookmark_def d
        uuid_in_example Let_def)
  then obtain r1 where r1: "create_bookmark ?a1 ?url ?o [] = (Inr r1, [r1])"
    "col_id r1 = ?i1" "col_user_id r1 = ?o" "col_url r1 = ?url" by blast
  have a2: "\<exists>r2. create_bookmark ?a2 ?url ?o [r1] = (Inr r2, [r1, r2])
      \<and> col_user_id r2 = ?o \<and> col_url r2 = ?url"
    using ne
    by (simp add: create_bookmark_def create_bookmark_try_def insert_bookmark_def d
        uuid_in_example Let_def r1(2))
  then obtain r2 where r2: "create_bookmark ?a2 ?url ?o [r1] = (Inr r2, [r1, r2])"
    "col_user_id r2 = ?o" "col_url r2 = ?url" by blast
  have "rows_of ?o ?url (snd (create_bookmark ?n2 ?url ?o (snd (create_bookmark ?n1 ?url ?o [])))) = []"
    unfolding n1 n2 by (simp add: rows_of_def)
  moreover have "length (rows_of ?o ?url
      (snd (create_bookmark ?a2 ?url ?o (snd (create_bookmark ?a1 ?url ?o []))))) = 2"
    unfolding r1(1) snd_conv r2(1) using r1(3,4) r2(2,3) by (simp add: rows_of_def)
  ultimately show ?thesis by (rule conjI)
qed

text \<open>
  C1 (amended): for every owner and URL, a save never updates a row. Either it is refused
  with an HTTP error and the table stays as it was, or it adds one new row with a fresh
  identity. A save succeeds only if the owner is the text of a UUID of \<^verbatim>\<open>auth.users\<close>
  and the session of the request is that owner's; in a session with no signed-in user, as
  the one of the client the code builds, every save is refused. When two saves of the same
  URL for the same owner both succeed, the table is the old table followed by the two new
  rows, which have different identities and the same owner and URL, and the owner has two
  rows more for that URL than before.
\<close>

theorem create_bookmark_twice:
  "(auth_uid env1 = None \<longrightarrow>
      (\<exists>detail. create_bookmark env1 url user_id table
         = (Inl (HTTPException 500 detail), table)))
   \<and> (create_bookmark env1 url user_id table = (Inl e, table1) \<longrightarrow> table1 = table)
   \<and> (create_bookmark env1 url user_id table = (Inr row1, table1) \<longrightarrow>
        table1 = table @ [row1] \<and> col_id row1 \<notin> set (map col_id table)
        \<and> uuid_in user_id = Some (col_user_id row1)
        \<and> auth_uid env1 = Some (col_user_id row1)
        \<and> col_user_id row1 \<in> set (auth_users env1)
        \<and> col_url row1 = url)
   \<and> (create_bookmark env1 url user_id table = (Inr row1, table1)
        \<and> create_bookmark env2 url user_id table1 = (Inr row2, table2) \<longrightarrow>
        table2 = table @ [row1, row2]
        \<and> col_id row1 \<noteq> col_id row2
        \<and> col_user_id row2 = col_user_id row1 \<and> col_url row2 = col_url row1
        \<and> length (rows_of (col_user_id row1) url table2)
            = length (rows_of (col_user_id row1) url table) + 2)"
proof (intro conjI impI)
  assume "auth_uid env1 = None"
  then show "\<exists>detail. create_bookmark env1 url user_id table
      = (Inl (HTTPException 500 detail), table)"
    by (rule create_bookmark_anon)
next
  assume "create_bookmark env1 url user_id table = (Inl e, table1)"
  then show "table1 = table"
    by (simp add: create_bookmark_Inl)
next
  assume a: "create_bookmark env1 url user_id table = (Inr row1, table1)"
  note r = create_bookmark_Inr [OF a]
  from r show "table1 = table @ [row1]" by blast
  from r show "col_id row1 \<notin> set (map col_id table)" by blast
  from r show "uuid_in user_id = Some (col_user_id row1)" by blast
  from r show "auth_uid env1 = Some (col_user_id row1)" by blast
  from r show "col_user_id row1 \<in> set (auth_users env1)" by blast
  from r show "col_url row1 = url" by blast
next
  assume ab: "create_bookmark env1 url user_id table = (Inr row1, table1)
      \<and> create_bookmark env2 url user_id table1 = (Inr row2, table2)"
  note a = create_bookmark_Inr [OF ab [THEN conjunct1]]
    and b = create_bookmark_Inr [OF ab [THEN conjunct2]]
  from a b show "table2 = table @ [row1, row2]" by simp
  from a b show "col_id row1 \<noteq> col_id row2" by auto
  from a b show "col_user_id row2 = col_user_id row1" by simp
  from a b show "col_url row2 = col_url row1" by simp
  from a b show "length (rows_of (col_user_id row1) url table2)
      = length (rows_of (col_user_id row1) url table) + 2"
    by (simp add: rows_of_def)
qed

text \<open>
  The amended C1 at the owner and URL above: the save without a signed-in user is refused
  and stores nothing; in a session of the owner, a first save into the empty table and a
  second save after it succeed and leave two rows with different identities.
\<close>

theorem create_bookmark_twice_witness:
  "(\<exists>detail. create_bookmark
        \<lparr>extract_page_data = (\<lambda>u. CrawlSuccess
            [str ''title'' \<mapsto> VStr (str ''A''), str ''description'' \<mapsto> VStr (str ''D''),
             str ''content_markdown'' \<mapsto> VStr (str ''C''), str ''main_image'' \<mapsto> VNone]),
          exc_str = (\<lambda>e. []), gen_random_uuid = str ''aaaaaaaa-aaaa-4aaa-8aaa-aaaaaaaaaaa1'',
          now = 1, auth_users = [str ''11111111-1111-4111-8111-111111111111''],
          auth_uid = None, storage_fault = None\<rparr>
        (str ''https://example.com/a'') (str ''11111111-1111-4111-8111-111111111111'') []
      = (Inl (HTTPException 500 detail), []))
   \<and> (\<exists>row1 row2.
        create_bookmark
          \<lparr>extract_page_data = (\<lambda>u. CrawlSuccess
              [str ''title'' \<mapsto> VStr (str ''A''), str ''description'' \<mapsto> VStr (str ''D''),
               str ''content_markdown'' \<mapsto> VStr (str ''C''), str ''main_image'' \<mapsto> VNone]),
            exc_str = (\<lambda>e. []), gen_random_uuid = str ''aaaaaaaa-aaaa-4aaa-8aaa-aaaaaaaaaaa1'',
            now = 1, auth_users = [str ''11111111-1111-4111-8111-111111111111''],
            auth_uid = Some (str ''11111111-1111-4111-8111-111111111111''),
            storage_fault = None\<rparr>
          (str ''https://example.com/a'') (str ''11111111-1111-4111-8111-111111111111'') []
        = (Inr row1, [row1])
      \<and> create_bookmark
          \<lparr>extract_page_data = (\<lambda>u. CrawlSuccess
              [str ''title'' \<mapsto> VStr (str ''A''), str ''description'' \<mapsto> VStr (str ''D''),
               str ''content_markdown'' \<mapsto> VStr (str ''C''), str ''main_image'' \<mapsto> VNone]),
            exc_str = (\<lambda>e. []), gen_random_uuid = str ''aaaaaaaa-aaaa-4aaa-8aaa-aaaaaaaaaaa2'',
            now = 2, auth_users = [str ''11111111-1111-4111-8111-111111111111''],
            auth_uid = Some (str ''11111111-1111-4111-8111-111111111111''),
            storage_fault = None\<rparr>
          (str ''https://example.com/a'') (str ''11111111-1111-4111-8111-111111111111'') [row1]
        = (Inr row2, [row1, row2])
      \<and> col_id row1 \<noteq> col_id row2
      \<and> col_user_id row1 = str ''11111111-1111-4111-8111-111111111111''
      \<and> length (rows_of (str ''11111111-1111-4111-8111-111111111111'')
            (str ''https://example.com/a'') [row1, row2]) = 2)"
proof -
  let ?pd = "[str ''title'' \<mapsto> VStr (str ''A''), str ''description'' \<mapsto> VStr (str ''D''),
             str ''content_markdown'' \<mapsto> VStr (str ''C''), str ''main_image'' \<mapsto> VNone]"
  let ?o = "str ''11111111-1111-4111-8111-111111111111''"
  let ?url = "str ''https://example.com/a''"
  let ?i1 = "str ''aaaaaaaa-aaaa-4aaa-8aaa-aaaaaaaaaaa1''"
  let ?i2 = "str ''aaaaaaaa-aaaa-4aaa-8aaa-aaaaaaaaaaa2''"
  let ?n1 = "\<lparr>extract_page_data = (\<lambda>u. CrawlSuccess ?pd), exc_str = (\<lambda>e. []),
      gen_random_uuid = ?i1, now = 1, auth_users = [?o], auth_uid = None,
      storage_fault = None\<rparr>"
  let ?a1 = "\<lparr>extract_page_data = (\<lambda>u. CrawlSuccess ?pd), exc_str = (\<lambda>e. []),
      gen_random_uuid = ?i1, now = 1, auth_users = [?o], auth_uid = Some ?o,
      storage_fault = None\<rparr>"
  let ?a2 = "\<lparr>extract_page_data = (\<lambda>u. CrawlSuccess ?pd), exc_str = (\<lambda>e. []),
      gen_random_uuid = ?i2, now = 2, auth_users = [?o], auth_uid = Some ?o,
      storage_fault = None\<rparr>"
  have ne: "?i2 \<noteq> ?i1"
    by (simp add: str_def)
  have d: "dict_index ?pd (str ''title'') = Inr (VStr (str ''A''))"
    "dict_index ?pd (str ''description'') = Inr (VStr (str ''D''))"
    "dict_index ?pd (str ''content_markdown'') = Inr (VStr (str ''C''))"
    "dict_index ?pd (str ''main_image'') = Inr VNone"
    by (simp_all add: dict_index_def str_def)
  have anon: "auth_uid ?n1 = None"
    by simp
  from create_bookmark_twice [where ?env1.0 = ?n1 and url = ?url and user_id = ?o
      and table = "[]"] anon
  have p1: "\<exists>detail. create_bookmark ?n1 ?url ?o [] = (Inl (HTTPException 500 detail), [])"
    by blast
  have "\<exists>r1. create_bookmark ?a1 ?url ?o [] = (Inr r1, [r1]) \<and> col_id r1 = ?i1"
    by (simp add: create_bookmark_def create_bookmark_try_def insert_bookmark_def d
        uuid_in_example Let_def)
  then obtain r1 where r1: "create_bookmark ?a1 ?url ?o [] = (Inr r1, [r1])"
    and i1: "col_id r1 = ?i1" by blast
  have "\<exists>r2. create_bookmark ?a2 ?url ?o [r1] = (Inr r2, [r1, r2])"
    using ne
    by (simp add: create_bookmark_def create_bookmark_try_def insert_bookmark_def d
        uuid_in_example Let_def i1)
  then obtain r2 where r2: "create_bookmark ?a2 ?url ?o [r1] = (Inr r2, [r1, r2])" ..
  have e: "rows_of x y [] = []" for x y
    by (simp add: rows_of_def)
  from create_bookmark_twice [where ?env1.0 = ?a1 and url = ?url and user_id = ?o
      and table = "[]" and ?row1.0 = r1 and ?table1.0 = "[r1]" and ?env2.0 = ?a2
      and ?row2.0 = r2 and ?table2.0 = "[r1, r2]"] r1 r2
  have o: "uuid_in ?o = Some (col_user_id r1)"
    and f: "col_id r1 \<noteq> col_id r2"
    and l: "length (rows_of (col_user_id r1) ?url [r1, r2])
        = length (rows_of (col_user_id r1) ?url []) + 2"
    by blast+
  from o have u: "col_user_id r1 = ?o"
    by (simp add: uuid_in_example)
  from l have l2: "length (rows_of ?o ?url [r1, r2]) = 2"
    unfolding u e by simp
  have "create_bookmark ?a1 ?url ?o [] = (Inr r1, [r1])
      \<and> create_bookmark ?a2 ?url ?o [r1] = (Inr r2, [r1, r2])
      \<and> col_id r1 \<noteq> col_id r2 \<and> col_user_id r1 = ?o
      \<and> length (rows_of ?o ?url [r1, r2]) = 2"
    using r1 r2 f u l2 by (intro conjI)
  then have p2: "\<exists>row1 row2. create_bookmark ?a1 ?url ?o [] = (Inr row1, [row1])
      \<and> create_bookmark ?a2 ?url ?o [row1] = (Inr row2, [row1, row2])
      \<and> col_id row1 \<noteq> col_id row2 \<and> col_user_id row1 = ?o
      \<and> length (rows_of ?o ?url [row1, row2]) = 2"
    by (intro exI)
  from p1 p2 show ?thesis by (rule conjI)
qed

text \<open>
  C2, as the claim states it, fails: when the crawler answers with a failure,
  \<open>create_bookmark\<close> ends in an HTTP exception and the table stays empty; no bookmark is
  stored.
\<close>

theorem create_bookmark_fetch_failure_counterexample:
  "create_bookmark
     \<lparr>extract_page_data = (\<lambda>u. CrawlFailure (str ''timeout'')),
       exc_str = (\<lambda>e. str ''error''), gen_random_uuid = str ''id-1'', now = 1,
       auth_users = [], auth_uid = None, storage_fault = None\<rparr>
     (str ''https://slow.example/x'') (str ''u1'') []
   = (Inl (HTTPException 500 (str ''error'')), [])"
  by (simp add: create_bookmark_def create_bookmark_try_def)

text \<open>
  C2 (amended): for every link request whose fetch fails or times out (the crawler answers
  with a failure), \<open>create_bookmark\<close> ends in an HTTP exception that the caller gets as
  a failure of the request, and it leaves the table of bookmarks as it was: no bookmark is
  stored.
\<close>

theorem create_bookmark_fetch_failure:
  "extract_page_data env url = CrawlFailure err \<Longrightarrow>
     (\<exists>code detail.
        fst (create_bookmark env url user_id table) = Inl (HTTPException code detail))
     \<and> snd (create_bookmark env url user_id table) = table"
  by (simp add: create_bookmark_def create_bookmark_try_def)

text \<open>The amended C2 at a crawler that times out.\<close>

theorem create_bookmark_fetch_failure_witness:
  "\<exists>code detail.
     create_bookmark
       \<lparr>extract_page_data = (\<lambda>u. CrawlFailure (str ''timeout'')),
         exc_str = (\<lambda>e. str ''error''), gen_random_uuid = str ''id-1'', now = 1,
         auth_users = [], auth_uid = None, storage_fault = None\<rparr>
       (str ''https://slow.example/x'') (str ''u1'') []
     = (Inl (HTTPException code detail), [])"
proof -
  let ?env = "\<lparr>extract_page_data = (\<lambda>u. CrawlFailure (str ''timeout'')),
         exc_str = (\<lambda>e. str ''error''), gen_random_uuid = str ''id-1'', now = 1,
         auth_users = [], auth_uid = None, storage_fault = None\<rparr>"
  have "extract_page_data ?env (str ''https://slow.example/x'') = CrawlFailure (str ''timeout'')"
    by simp
  from create_bookmark_fetch_failure [OF this, of "str ''u1''" "[]"]
  show ?thesis by (metis prod.collapse)
qed

text \<open>The status the caller gets is 500: the status 400 exception is caught and wrapped.\<close>

lemma create_bookmark_fetch_failure_status:
  "extract_page_data env url = CrawlFailure err \<Longrightarrow>
     create_bookmark env url user_id table
       = (Inl (HTTPException 500 (exc_str env (HTTPException 400 cannot_process))), table)"
  by (simp add: create_bookmark_def create_bookmark_try_def)

text \<open>A page without a title is refused as well, and nothing is stored.\<close>

lemma create_bookmark_missing_title:
  "extract_page_data env url = CrawlSuccess page_data \<Longrightarrow> page_data (str ''title'') = None \<Longrightarrow>
     create_bookmark env url user_id table
       = (Inl (HTTPException 500 (exc_str env (KeyError (str ''title'')))), table)"
  by (simp add: create_bookmark_def create_bookmark_try_def dict_index_def)

subsection \<open>The subscription form\<close>

text \<open>
  C10: for every submission in which the email field is missing or empty, or no topic is
  selected, \<open>handleSubscription\<close> only shows the alert: \<^verbatim>\<open>currentUser\<close> keeps its
  value, no user is saved, no POST is sent to the webhook, the toast is not shown, the
  dashboard is not rendered again and no timer is set.
\<close>

theorem handleSubscription_invalid:
  assumes "form_email f = None \<or> form_email f = Some [] \<or> form_topics f = []"
  shows "currentUser (handleSubscription f iso1 iso2 s) = currentUser s
     \<and> window_newsletterUser (handleSubscription f iso1 iso2 s) = window_newsletterUser s
     \<and> fetch_posts (handleSubscription f iso1 iso2 s) = fetch_posts s
     \<and> toast_show (handleSubscription f iso1 iso2 s) = toast_show s
     \<and> dashboardContent (handleSubscription f iso1 iso2 s) = dashboardContent s
     \<and> timeouts (handleSubscription f iso1 iso2 s) = timeouts s
     \<and> handleSubscription f iso1 iso2 s = s\<lparr>alerts := alerts s @ [required_fields_message]\<rparr>"
proof -
  have "handleSubscription f iso1 iso2 s = s\<lparr>alerts := alerts s @ [required_fields_message]\<rparr>"
    using assms by (auto simp: handleSubscription_def split: option.splits)
  then show ?thesis by simp
qed

text \<open>
  C10 at a submission with an empty email and one topic, on a page where nobody has
  subscribed yet.
\<close>

theorem handleSubscription_invalid_witness:
  "handleSubscription
     \<lparr>form_email = Some [], form_frequency = Some (str ''weekly''), form_topics = [str ''AI'']\<rparr>
     (str ''2025-06-15T08:00:00.000Z'') (str ''2025-06-15T08:00:00.001Z'')
     \<lparr>currentUser = None, window_newsletterUser = None, alerts = [], fetch_posts = [],
       toast_show = False, dashboardContent = DashboardPlaceholder, timeouts = []\<rparr>
   = \<lparr>currentUser = None, window_newsletterUser = None, alerts = [required_fields_message],
       fetch_posts = [], toast_show = False, dashboardContent = DashboardPlaceholder,
       timeouts = []\<rparr>"
  using handleSubscription_invalid [of
      "\<lparr>form_email = Some [], form_frequency = Some (str ''weekly''), form_topics = [str ''AI'']\<rparr>"
      "str ''2025-06-15T08:00:00.000Z''" "str ''2025-06-15T08:00:00.001Z''"
      "\<lparr>currentUser = None, window_newsletterUser = None, alerts = [], fetch_posts = [],
        toast_show = False, dashboardContent = DashboardPlaceholder, timeouts = []\<rparr>"]
  by simp

text \<open>
  A submission with an email and a topic does all of it: the user is stored and saved, one
  POST is sent, the toast is shown, the dashboard is rendered and two timers are set.
\<close>

lemma handleSubscription_valid:
  assumes "form_email f = Some e" and "e \<noteq> []" and "form_topics f \<noteq> []"
  shows "\<exists>u. currentUser (handleSubscription f iso1 iso2 s) = Some u
     \<and> window_newsletterUser (handleSubscription f iso1 iso2 s) = Some u
     \<and> email u = e \<and> topics u = form_topics f \<and> frequency u = form_frequency f
     \<and> length (fetch_posts (handleSubscription f iso1 iso2 s)) = length (fetch_posts s) + 1
     \<and> toast_show (handleSubscription f iso1 iso2 s)
     \<and> alerts (handleSubscription f iso1 iso2 s) = alerts s
     \<and> timeouts (handleSubscription f iso1 iso2 s)
         = timeouts s @ [(3000, HideToast), (1000, ScrollToSection (str ''dashboard''))]"
  using assms
  by (simp add: handleSubscription_def Let_def saveCurrentUser_def showSuccessToast_def
      renderDashboard_def)

lemma handleSubscription_example:
  "dashboardContent (handleSubscription
     \<lparr>form_email = Some (str ''a@b.c''), form_frequency = Some (str ''weekly''),
       form_topics = [str ''AI'', str ''Other'']\<rparr>
     (str ''2025-06-15T08:00:00.000Z'') (str ''2025-06-15T08:00:00.001Z'')
     \<lparr>currentUser = None, window_newsletterUser = None, alerts = [], fetch_posts = [],
       toast_show = False, dashboardContent = DashboardPlaceholder, timeouts = []\<rparr>)
   = DashboardActive (str ''a@b.c'') (Some [27599, 36913]) (str ''2025-06-15'')
       [([20154, 24037, 26234, 24935], str ''#4F46E5'')]"
  by (simp add: handleSubscription_def Let_def saveCurrentUser_def showSuccessToast_def
      renderDashboard_def frequencyLabel_def subscribedTopicsInfo_def
      appData_newsletterFrequencies_def appData_topics_def List.map_filter_def str_def)

end
